theory Spec2Isabelle
  imports Complex_Main "HOL-Library.Sublist"
begin

section \<open>Data model\<close>

text \<open>
  The chat route (\<^verbatim>\<open>POST /api/chat\<close>) exists in two copies that differ only in the wording
  of the prompt template.  Both are embedded here through one handler that takes the template
  as an argument.

  Strings are lists of 8-bit characters.  The only non-ASCII character of the two templates,
  the en dash, is written as its three UTF-8 bytes.  JavaScript numbers are modelled as
  \<^typ>\<open>real\<close>; there is no NaN in the model.
\<close>

text \<open>A parsed JSON value, as returned by \<^verbatim>\<open>req.json()\<close> and as passed to
  \<^verbatim>\<open>NextResponse.json\<close>.  An object is the list of its own properties.\<close>

datatype json =
    JNull
  | JBool bool
  | JNum real
  | JStr string
  | JArr "json list"
  | JObj "(string \<times> json) list"

text \<open>The records of \<^verbatim>\<open>src/data/neighborhoods.json\<close>.  The data file is not part of the
  sources; the fields are the ones the handler reads, typed as in the data model of the
  specification (the interpolated fields are strings).\<close>

record climate_params =
  flood_risk :: string
  storm_surge :: string
  heat_index :: string
  sea_level_rise :: string
  precipitation_trends :: string
  wind_risk :: string
  coastal_erosion :: string
  groundwater_intrusion :: string
  infrastructure_resilience :: string
  adaptation_cost_estimate :: string

record neighborhood =
  name :: string
  description :: string
  lat :: real
  lon :: real
  climate_parameters :: climate_params
  vulnerability :: string
  solutions :: string

text \<open>The accumulator of the \<^verbatim>\<open>reduce\<close>: either the initial object \<^verbatim>\<open>{ score: 0 }\<close> or a
  record spread together with its score, \<^verbatim>\<open>{ ...n, score }\<close>.\<close>

datatype best = Initial | Scored neighborhood real

fun score :: "best \<Rightarrow> real" where
  "score Initial = 0"
| "score (Scored n s) = s"

text \<open>One message of the upstream conversation.\<close>

datatype role = System | User | Assistant

record chat_message =
  role :: role
  content :: string

text \<open>The argument of \<^verbatim>\<open>groq.chat.completions.create\<close>.\<close>

record completion_request =
  model :: string
  messages :: "chat_message list"
  temperature :: real
  max_tokens :: nat
  top_p :: real
  frequency_penalty :: real

text \<open>What the upstream call does: it throws (with \<^verbatim>\<open>err.message\<close>, when there is one) or it
  returns a completion, whose \<^verbatim>\<open>choices?.[0]?.message?.content\<close> may be absent.\<close>

datatype upstream_result =
    Rejected "string option"
  | Completion "string option"

text \<open>Everything outside the handler that it reads or calls: the environment variable, the
  outcome of reading and parsing the data file (\<open>None\<close> when either throws, otherwise an
  array of well-formed records), the score computed by the \<^verbatim>\<open>fuzzyjs\<close> library
  (\<^verbatim>\<open>match(query, source).score\<close>, not part of the sources), and the hosted chat-completion
  API.\<close>

record world =
  GROQ_API_KEY :: "string option"
  neighborhoods_json :: "neighborhood list option"
  fuzzy_match :: "string \<Rightarrow> string \<Rightarrow> real"
  chat_completions_create :: "completion_request \<Rightarrow> upstream_result"

text \<open>What a request produces: a JSON response with its status, or an exception that the
  code does not catch.\<close>

datatype outcome =
    Response nat json
  | Uncaught

section \<open>Fuzzy matcher\<close>

text \<open>\<^verbatim>\<open>String.prototype.toLowerCase\<close>, on the ASCII letters: \<open>A\<close> to \<open>Z\<close> are mapped
  to \<open>a\<close> to \<open>z\<close> and every other character is left as it is.\<close>

definition toLowerChar :: "char \<Rightarrow> char" where
  "toLowerChar c =
     (let k = (of_char c :: nat) in if 65 \<le> k \<and> k \<le> 90 then char_of (k + 32) else c)"

definition toLowerCase :: "string \<Rightarrow> string" where
  "toLowerCase s = map toLowerChar s"

text \<open>The callback of the \<^verbatim>\<open>reduce\<close>:
  \<^verbatim>\<open>score > (best.score || 0) ? { ...n, score } : best\<close>.\<close>

definition reducer :: "(string \<Rightarrow> string \<Rightarrow> real) \<Rightarrow> string \<Rightarrow> best \<Rightarrow> neighborhood \<Rightarrow> best" where
  "reducer match lowerMessage b n =
     (let s = match (toLowerCase (name n)) lowerMessage in
      if s > (if score b = 0 then 0 else score b) then Scored n s else b)"

definition matchedNeighborhood ::
  "(string \<Rightarrow> string \<Rightarrow> real) \<Rightarrow> string \<Rightarrow> neighborhood list \<Rightarrow> best" where
  "matchedNeighborhood match message neighborhoods =
     foldl (reducer match (toLowerCase message)) Initial neighborhoods"

text \<open>\<^verbatim>\<open>matchedNeighborhood.score > 0.7 ? matchedNeighborhood : null\<close>.  The initial object
  has score 0, which is not above the threshold, so what passes is a record with its score.\<close>

fun neighborhood_opt :: "best \<Rightarrow> (neighborhood \<times> real) option" where
  "neighborhood_opt Initial = None"
| "neighborhood_opt (Scored n s) = (if s > 0.7 then Some (n, s) else None)"

section \<open>Prompt composer\<close>

text \<open>A prompt template: the text \<^verbatim>\<open>systemPrompt\<close> starts with, and the last sentence of the
  neighborhood block.  These are the only places where the two copies of the route differ.\<close>

record prompt_template =
  base_prompt :: string
  closing_instruction :: string

definition globalPrompt :: string where
  \<open>globalPrompt =
     ''You are a global climate risk and urban resilience advisor with expertise in flood modeling, storm surge forecasting, heat risk, and infrastructure adaptation. \<newline>'' @
     ''\<newline>'' @
     ''FORMATTING GUIDELINES:\<newline>'' @
     ''- Use clear, conversational formatting\<newline>'' @
     ''- Keep numbers, percentages, and risk levels inline (e.g., "High '' @ [CHR 0xE2, CHR 0x80, CHR 0x93] @ '' 40% chance")\<newline>'' @
     ''- Use sections for readability but avoid excessive line breaks\<newline>'' @
     ''- Use bullet points only for concrete action items\<newline>'' @
     ''\<newline>'' @
     ''RESPONSE STYLE:\<newline>'' @
     ''- Lead with the most critical risks\<newline>'' @
     ''- Provide actionable, prioritized recommendations\<newline>'' @
     ''- Reference national, state, or local regulations, building codes, and agencies where relevant\<newline>'' @
     ''- Include realistic timelines and cost implications when possible\<newline>'' @
     ''- When location context is available, mention specific mitigation programs, grants, or authorities (e.g., FEMA in the U.S., NDMA in India, EU Floods Directive in Europe)\<newline>'' @
     ''\<newline>'' @
     ''TECHNICAL ACCURACY:\<newline>'' @
     ''- Base risk assessments on known data sources: FEMA flood zones (U.S.), Copernicus (EU), national hazard maps, historical storm records, sea level rise projections\<newline>'' @
     ''- Consider compound risks (storm surge + heavy rain, drought + heatwaves)\<newline>'' @
     ''- Include insurance or financial resilience considerations (e.g., NFIP in U.S., local insurance schemes)\<newline>'' @
     ''- Suggest both immediate and long-term adaptation strategies''\<close>

definition globalClosing :: string where
  \<open>globalClosing =
     ''Use this data to provide highly localized recommendations and reference any country- or region-specific policies or agencies that apply.''\<close>

definition southFloridaPrompt :: string where
  \<open>southFloridaPrompt =
     ''You are a South Florida climate risk specialist with expertise in flood modeling, urban planning, and resilience strategies. Your responses should be:\<newline>'' @
     ''\<newline>'' @
     ''FORMATTING GUIDELINES:\<newline>'' @
     ''- Use clean, chat-friendly formatting without excessive line breaks\<newline>'' @
     ''- Keep risk percentages and measurements on the same line (e.g., "High '' @ [CHR 0xE2, CHR 0x80, CHR 0x93] @ '' 40% chance" not "High\<newline>40% chance")\<newline>'' @
     ''- Use clear sections with proper spacing but avoid overly fragmented text\<newline>'' @
     ''- Present numerical data inline with descriptions\<newline>'' @
     ''- Use bullet points sparingly and only for clear action items\<newline>'' @
     ''\<newline>'' @
     ''RESPONSE STYLE:\<newline>'' @
     ''- Lead with the most critical risk information\<newline>'' @
     ''- Provide specific, actionable recommendations\<newline>'' @
     ''- Reference local South Florida conditions and regulations\<newline>'' @
     ''- Include realistic timelines and cost considerations when relevant\<newline>'' @
     ''- Mention relevant agencies (FEMA, SFWMD, local emergency management)\<newline>'' @
     ''\<newline>'' @
     ''TECHNICAL ACCURACY:\<newline>'' @
     ''- Base flood risk assessments on FEMA flood zones, historical data, and sea level rise projections\<newline>'' @
     ''- Reference current building codes (Florida Building Code, local ordinances)\<newline>'' @
     ''- Include insurance implications (NFIP rates, flood insurance requirements)\<newline>'' @
     ''- Consider compound risks (storm surge + rainfall, heat + flooding)''\<close>

definition southFloridaClosing :: string where
  \<open>southFloridaClosing =
     ''Use this data to provide specific, localized advice. Reference the exact risk levels and tailor solutions to this neighborhood's characteristics.''\<close>

definition globalTemplate :: prompt_template where
  "globalTemplate = \<lparr>base_prompt = globalPrompt, closing_instruction = globalClosing\<rparr>"

definition southFloridaTemplate :: prompt_template where
  "southFloridaTemplate =
     \<lparr>base_prompt = southFloridaPrompt, closing_instruction = southFloridaClosing\<rparr>"

text \<open>The block appended for a matched record.  The fields are interpolated as they are.\<close>

definition neighborhoodContext :: "prompt_template \<Rightarrow> neighborhood \<Rightarrow> string" where
  "neighborhoodContext t n =
     ''\<newline>\<newline>SPECIFIC NEIGHBORHOOD CONTEXT:\<newline>'' @
     ''Name: '' @ name n @ ''\<newline>'' @
     ''Description: '' @ description n @ ''\<newline>'' @
     ''Current Flood Risk: '' @ flood_risk (climate_parameters n) @ ''\<newline>'' @
     ''Storm Surge Potential: '' @ storm_surge (climate_parameters n) @ ''\<newline>'' @
     ''Heat Risk: '' @ heat_index (climate_parameters n) @ ''\<newline>'' @
     ''Sea Level Rise Projection: '' @ sea_level_rise (climate_parameters n) @ ''\<newline>'' @
     ''Precipitation Trends: '' @ precipitation_trends (climate_parameters n) @ ''\<newline>'' @
     ''Wind Risk: '' @ wind_risk (climate_parameters n) @ ''\<newline>'' @
     ''Coastal Erosion: '' @ coastal_erosion (climate_parameters n) @ ''\<newline>'' @
     ''Groundwater Intrusion: '' @ groundwater_intrusion (climate_parameters n) @ ''\<newline>'' @
     ''Infrastructure Resilience: '' @ infrastructure_resilience (climate_parameters n) @ ''\<newline>'' @
     ''Adaptation Cost Estimate: '' @ adaptation_cost_estimate (climate_parameters n) @ ''\<newline>'' @
     ''Overall Vulnerability: '' @ vulnerability n @ ''\<newline>'' @
     ''Recommended Solutions: '' @ solutions n @ ''\<newline>'' @
     ''\<newline>'' @
     closing_instruction t"

fun systemPrompt :: "prompt_template \<Rightarrow> (neighborhood \<times> real) option \<Rightarrow> string" where
  "systemPrompt t None = base_prompt t"
| "systemPrompt t (Some (n, s)) = base_prompt t @ neighborhoodContext t n"

section \<open>Completion gateway\<close>

definition conversation :: "string \<Rightarrow> string \<Rightarrow> chat_message list" where
  "conversation prompt message =
     [\<lparr>role = System, content = prompt\<rparr>, \<lparr>role = User, content = message\<rparr>]"

definition create_params :: "chat_message list \<Rightarrow> completion_request" where
  "create_params msgs =
     \<lparr>model = ''openai/gpt-oss-120b'', messages = msgs, temperature = 0.7,
      max_tokens = 4096, top_p = 0.9, frequency_penalty = 0.1\<rparr>"

text \<open>\<^verbatim>\<open>neighborhood ? { lat: neighborhood.lat, lon: neighborhood.lon } : null\<close>\<close>

fun location :: "(neighborhood \<times> real) option \<Rightarrow> json" where
  "location None = JNull"
| "location (Some (n, s)) = JObj [(''lat'', JNum (lat n)), (''lon'', JNum (lon n))]"

text \<open>The \<^verbatim>\<open>try\<close> block around the upstream call, given what the call did.  An absent
  \<^verbatim>\<open>err.message\<close> is dropped by the serialisation.\<close>

definition error_body :: "string \<Rightarrow> json" where
  "error_body e = JObj [(''error'', JStr e)]"

fun respond :: "(neighborhood \<times> real) option \<Rightarrow> upstream_result \<Rightarrow> outcome" where
  "respond nb (Completion None) = Response 500 (error_body ''Empty response from model'')"
| "respond nb (Completion (Some aiResponse)) =
     (if aiResponse = [] then Response 500 (error_body ''Empty response from model'')
      else Response 200
        (JObj [(''parsed'', JObj [(''response'', JStr aiResponse), (''location'', location nb)])]))"
| "respond nb (Rejected None) =
     Response 500 (JObj [(''error'', JStr ''Chat processing failed'')])"
| "respond nb (Rejected (Some m)) =
     Response 500 (JObj [(''error'', JStr ''Chat processing failed''), (''details'', JStr m)])"

text \<open>Property access on the parsed body, as done by the destructuring
  \<^verbatim>\<open>const { message, sessionId } = body\<close>: \<open>None\<close> is \<^verbatim>\<open>undefined\<close>.  Destructuring
  \<^verbatim>\<open>null\<close> throws, which the handler does not catch.\<close>

fun property :: "json \<Rightarrow> string \<Rightarrow> json option" where
  "property (JObj props) k = map_of props k"
| "property v k = None"

text \<open>The handler.  It returns the outcome together with the requests it sent upstream, in
  order.  \<open>req\<close> is the result of \<^verbatim>\<open>await req.json()\<close>, \<open>None\<close> when it throws.\<close>

definition POST ::
  "prompt_template \<Rightarrow> world \<Rightarrow> json option \<Rightarrow> outcome \<times> completion_request list" where
  "POST t w req =
     (case req of
        None \<Rightarrow> (Response 400 (error_body ''Invalid request body''), [])
      | Some JNull \<Rightarrow> (Uncaught, [])
      | Some body \<Rightarrow>
         (case property body ''message'' of
            Some (JStr message) \<Rightarrow>
              if message = [] then
                (Response 400 (error_body ''Message is required and must be a string''), [])
              else if GROQ_API_KEY w = None \<or> GROQ_API_KEY w = Some [] then
                (Response 500 (error_body ''Groq API key not set''), [])
              else
                (case neighborhoods_json w of
                   None \<Rightarrow> (Response 500 (error_body ''Internal data error''), [])
                 | Some neighborhoods \<Rightarrow>
                    let nb = neighborhood_opt
                               (matchedNeighborhood (fuzzy_match w) message neighborhoods);
                        params = create_params (conversation (systemPrompt t nb) message)
                    in (respond nb (chat_completions_create w params), [params]))
          | _ \<Rightarrow> (Response 400 (error_body ''Message is required and must be a string''), [])))"

text \<open>The two routes of the sources.\<close>

definition POST_global :: "world \<Rightarrow> json option \<Rightarrow> outcome \<times> completion_request list" where
  "POST_global = POST globalTemplate"

definition POST_southFlorida :: "world \<Rightarrow> json option \<Rightarrow> outcome \<times> completion_request list" where
  "POST_southFlorida = POST southFloridaTemplate"

text \<open>The module-level statement
  \<^verbatim>\<open>const groq = new Groq({ apiKey: process.env.GROQ_API_KEY! })\<close>, which runs when the route
  module is loaded, before any request reaches \<^verbatim>\<open>POST\<close>.  The SDK is not part of the sources:
  its constructor throws when it gets no key (an absent option falls back to the same
  environment variable) and takes any string, the empty one too.  \<open>None\<close> is the throw.\<close>

definition groq :: "world \<Rightarrow> string option" where
  "groq w = (case GROQ_API_KEY w of None \<Rightarrow> None | Some apiKey \<Rightarrow> Some apiKey)"

text \<open>A request to the route: the module is loaded, then the handler runs.  When loading
  throws there is no handler to run.\<close>

definition chat_route ::
  "prompt_template \<Rightarrow> world \<Rightarrow> json option \<Rightarrow> outcome \<times> completion_request list" where
  "chat_route t w req = (case groq w of None \<Rightarrow> (Uncaught, []) | Some client \<Rightarrow> POST t w req)"

section \<open>Notions used to state the properties\<close>

text \<open>The score the \<^verbatim>\<open>reduce\<close> computes for a record: the lower-cased name is the query,
  the lower-cased message is the source.\<close>

definition name_score :: "(string \<Rightarrow> string \<Rightarrow> real) \<Rightarrow> string \<Rightarrow> neighborhood \<Rightarrow> real" where
  "name_score match message n = match (toLowerCase (name n)) (toLowerCase message)"

text \<open>Position \<open>i\<close> holds a first maximum of \<open>sc\<close> over the list: no record scores higher
  and every earlier record scores strictly lower.\<close>

definition first_max :: "(neighborhood \<Rightarrow> real) \<Rightarrow> neighborhood list \<Rightarrow> nat \<Rightarrow> bool" where
  "first_max sc ns i \<longleftrightarrow>
     i < length ns \<and> (\<forall>j<length ns. sc (ns ! j) \<le> sc (ns ! i)) \<and> (\<forall>j<i. sc (ns ! j) < sc (ns ! i))"

section \<open>Example data\<close>

text \<open>Two records, requests and a world for evaluating the handler on concrete inputs.  The
  data file and the \<^verbatim>\<open>fuzzyjs\<close> library are not part of the sources, so the records are
  examples of the record type and the scorers are examples: \<open>containment_score\<close> is 1 when
  the query occurs in the source and 0 otherwise; \<open>penalty_score\<close> is not normalised, it
  gives ten points for each character of a query that occurs in the source and takes one
  point for each other character of the source.\<close>

definition brickell :: neighborhood where
  "brickell =
     \<lparr>name = ''Brickell'', description = ''Dense waterfront financial district'',
      lat = 25.758, lon = -80.1936,
      climate_parameters =
        \<lparr>flood_risk = ''High'', storm_surge = ''Severe'', heat_index = ''Elevated'',
         sea_level_rise = ''2 ft by 2060'', precipitation_trends = ''Increasing'',
         wind_risk = ''High'', coastal_erosion = ''Moderate'',
         groundwater_intrusion = ''High'', infrastructure_resilience = ''Medium'',
         adaptation_cost_estimate = ''$500M''\<rparr>,
      vulnerability = ''High'', solutions = ''Raise roads; install pumps''\<rparr>"

definition wynwood :: neighborhood where
  "wynwood =
     \<lparr>name = ''Wynwood'', description = ''Inland arts district'',
      lat = 25.8042, lon = -80.1989,
      climate_parameters =
        \<lparr>flood_risk = ''Moderate'', storm_surge = ''Low'', heat_index = ''High'',
         sea_level_rise = ''1 ft by 2060'', precipitation_trends = ''Increasing'',
         wind_risk = ''Moderate'', coastal_erosion = ''None'',
         groundwater_intrusion = ''Low'', infrastructure_resilience = ''Medium'',
         adaptation_cost_estimate = ''$120M''\<rparr>,
      vulnerability = ''Medium'', solutions = ''Add tree canopy; improve drainage''\<rparr>"

definition containment_score :: "string \<Rightarrow> string \<Rightarrow> real" where
  "containment_score query source = (if sublist query source then 1 else 0)"

definition example_reply :: "completion_request \<Rightarrow> upstream_result" where
  "example_reply p = Completion (Some ''Brickell floods at king tides.'')"

definition example_world :: world where
  "example_world =
     \<lparr>GROQ_API_KEY = Some ''gsk_example'', neighborhoods_json = Some [brickell, wynwood],
      fuzzy_match = containment_score, chat_completions_create = example_reply\<rparr>"

definition brickell_question :: string where
  "brickell_question = ''What's the flood risk in Brickell?''"

definition both_question :: string where
  "both_question = ''Compare Wynwood and Brickell''"

definition brickell_request :: json where
  "brickell_request =
     JObj [(''message'', JStr brickell_question), (''history'', JArr []),
           (''sessionId'', JStr ''k3j9x'')]"

definition brickell_request_later :: json where
  "brickell_request_later =
     JObj [(''message'', JStr brickell_question),
           (''history'', JArr [JObj [(''role'', JStr ''user''), (''content'', JStr ''hello'')],
                               JObj [(''role'', JStr ''assistant''), (''content'', JStr ''Hi!'')]]),
           (''sessionId'', JStr ''p0q7m'')]"

definition hello_request :: json where
  "hello_request = JObj [(''message'', JStr ''hello''), (''sessionId'', JStr ''k3j9x'')]"

definition long_question :: string where
  "long_question = ''I am thinking about buying a condo next year and I would like to understand how bad the flooding and storm surge risk is, what insurance would cost, and which building upgrades matter most for a unit in Brickell''"

definition penalty_score :: "string \<Rightarrow> string \<Rightarrow> real" where
  "penalty_score query source =
     (if sublist query source
      then 10 * real (length query) - real (length source - length query) else 0)"

section \<open>The fold of the matcher\<close>

lemma reducer_eq:
  "reducer match (toLowerCase msg) b n =
     (if name_score match msg n > score b then Scored n (name_score match msg n) else b)"
  by (simp add: reducer_def name_score_def Let_def)

text \<open>The result of the \<^verbatim>\<open>reduce\<close>, by induction on the list from the right: it is the
  initial object as long as no record scores above 0, and otherwise the record at the first
  maximum.\<close>

lemma fold_reducer:
  "(if \<exists>n\<in>set ns. name_score match msg n > 0
    then \<exists>i. first_max (name_score match msg) ns i \<and>
           foldl (reducer match (toLowerCase msg)) Initial ns
             = Scored (ns ! i) (name_score match msg (ns ! i))
    else foldl (reducer match (toLowerCase msg)) Initial ns = Initial)"
proof (induction ns rule: rev_induct)
  case Nil
  show ?case by simp
next
  case (snoc x xs)
  let ?sc = "name_score match msg"
  let ?f = "reducer match (toLowerCase msg)"
  show ?case
  proof (cases "\<exists>n\<in>set xs. ?sc n > 0")
    case False
    with snoc have init: "foldl ?f Initial xs = Initial" by simp
    from False have le0: "\<forall>j<length xs. ?sc (xs ! j) \<le> 0" by (auto simp: not_less)
    show ?thesis
    proof (cases "?sc x > 0")
      case True
      have "first_max ?sc (xs @ [x]) (length xs)"
        using le0 True by (fastforce simp: first_max_def nth_append less_Suc_eq)
      moreover have "foldl ?f Initial (xs @ [x]) = Scored x (?sc x)"
        using init True by (simp add: reducer_eq)
      ultimately show ?thesis using True by (auto intro!: exI[of _ "length xs"])
    next
      case F2: False
      with False init show ?thesis by (auto simp: reducer_eq)
    qed
  next
    case True
    with snoc obtain i where fm: "first_max ?sc xs i"
      and r: "foldl ?f Initial xs = Scored (xs ! i) (?sc (xs ! i))" by auto
    from fm have i: "i < length xs" by (simp add: first_max_def)
    from True have ex: "\<exists>n\<in>set (xs @ [x]). ?sc n > 0" by auto
    show ?thesis
    proof (cases "?sc x > ?sc (xs ! i)")
      case T2: True
      have "first_max ?sc (xs @ [x]) (length xs)"
        using fm T2 by (fastforce simp: first_max_def nth_append less_Suc_eq)
      moreover have "foldl ?f Initial (xs @ [x]) = Scored x (?sc x)"
        using r T2 by (simp add: reducer_eq)
      ultimately show ?thesis using ex by (auto intro!: exI[of _ "length xs"])
    next
      case F2: False
      have "first_max ?sc (xs @ [x]) i"
        using fm F2 by (auto simp: first_max_def nth_append less_Suc_eq not_less)
      moreover have "foldl ?f Initial (xs @ [x]) = Scored ((xs @ [x]) ! i) (?sc ((xs @ [x]) ! i))"
        using r F2 i by (simp add: reducer_eq nth_append)
      ultimately show ?thesis using ex by (auto simp del: foldl_append)
    qed
  qed
qed

lemma first_max_unique: "first_max sc ns i \<Longrightarrow> first_max sc ns j \<Longrightarrow> i = j"
  unfolding first_max_def by (metis leD linorder_neqE_nat)

lemma matched_first_max:
  assumes "first_max (name_score match msg) ns i" and "0 < name_score match msg (ns ! i)"
  shows "matchedNeighborhood match msg ns = Scored (ns ! i) (name_score match msg (ns ! i))"
proof -
  from assms(1) have "i < length ns" by (simp add: first_max_def)
  with assms(2) have "\<exists>n\<in>set ns. 0 < name_score match msg n" by auto
  with fold_reducer[of ns match msg] obtain j where j: "first_max (name_score match msg) ns j"
    and r: "matchedNeighborhood match msg ns = Scored (ns ! j) (name_score match msg (ns ! j))"
    by (auto simp: matchedNeighborhood_def)
  from first_max_unique[OF assms(1) j] r show ?thesis by simp
qed

lemma no_record_when_scores_nonpositive:
  assumes "\<forall>n\<in>set ns. name_score match msg n \<le> 0"
  shows "matchedNeighborhood match msg ns = Initial"
  using fold_reducer[of ns match msg] assms by (auto simp: matchedNeighborhood_def not_less)

lemma single_record_below_threshold:
  assumes "match (toLowerCase (name n)) (toLowerCase msg) \<le> 0.7"
  shows "neighborhood_opt (matchedNeighborhood match msg [n]) = None"
  using assms by (simp add: matchedNeighborhood_def reducer_def Let_def)

lemma neighborhood_opt_None: "neighborhood_opt b = None \<longleftrightarrow> score b \<le> 0.7"
  by (cases b) auto

lemma neighborhood_opt_Some:
  "neighborhood_opt b = Some (n, s) \<longleftrightarrow> b = Scored n s \<and> 0.7 < s"
  by (cases b) auto

section \<open>The paths through the handler\<close>

text \<open>A request that passes every check sends exactly one request upstream, and only such a
  request does.\<close>

lemma POST_upstream:
  assumes "property body ''message'' = Some (JStr m)" and "m \<noteq> []"
    and "GROQ_API_KEY w = Some k" and "k \<noteq> []"
    and "neighborhoods_json w = Some ns"
    and "nb = neighborhood_opt (matchedNeighborhood (fuzzy_match w) m ns)"
    and "p = create_params (conversation (systemPrompt t nb) m)"
  shows "POST t w (Some body) = (respond nb (chat_completions_create w p), [p])"
  using assms by (cases body) (simp_all add: POST_def Let_def)

lemma POST_sent:
  assumes "POST t w req = (out, p # ps)"
  shows "\<exists>body m ns nb. req = Some body \<and> property body ''message'' = Some (JStr m) \<and> m \<noteq> []
            \<and> neighborhoods_json w = Some ns \<and> ps = []
            \<and> nb = neighborhood_opt (matchedNeighborhood (fuzzy_match w) m ns)
            \<and> p = create_params (conversation (systemPrompt t nb) m)
            \<and> out = respond nb (chat_completions_create w p)"
  using assms
  by (auto simp: POST_def Let_def split: option.splits json.splits if_splits)

lemma POST_not_sent:
  assumes "snd (POST t w req) = []"
  shows "POST t' w req = POST t w req"
  using assms
  by (auto simp: POST_def Let_def split: option.splits json.splits if_splits)

text \<open>The guard on the key inside the handler, and the route around the handler.\<close>

lemma guard_without_key:
  assumes "property body ''message'' = Some (JStr m)" and "m \<noteq> []"
    and "GROQ_API_KEY w = None \<or> GROQ_API_KEY w = Some []"
  shows "POST t w (Some body) =
           (Response 500 (JObj [(''error'', JStr ''Groq API key not set'')]), [])"
  using assms by (cases body) (auto simp: POST_def error_body_def)

lemma route_without_key:
  assumes "GROQ_API_KEY w = None"
  shows "chat_route t w req = (Uncaught, [])"
  using assms by (simp add: chat_route_def groq_def)

lemma route_with_key:
  assumes "GROQ_API_KEY w = Some k"
  shows "chat_route t w req = POST t w req"
  using assms by (simp add: chat_route_def groq_def)

section \<open>The templates\<close>

text \<open>Neither base prompt has the letter X, so neither contains the header of the
  neighborhood block.\<close>

lemma no_X_global: "CHR ''X'' \<notin> set globalPrompt"
  unfolding globalPrompt_def by simp

lemma no_X_southFlorida: "CHR ''X'' \<notin> set southFloridaPrompt"
  unfolding southFloridaPrompt_def by simp

lemma no_header:
  assumes "CHR ''X'' \<notin> set s"
  shows "\<not> sublist ''SPECIFIC NEIGHBORHOOD CONTEXT:'' s"
proof
  assume "sublist ''SPECIFIC NEIGHBORHOOD CONTEXT:'' s"
  then have "set ''SPECIFIC NEIGHBORHOOD CONTEXT:'' \<subseteq> set s" by (rule set_mono_sublist)
  then have "CHR ''X'' \<in> set s" by auto
  with assms show False by simp
qed

lemma base_prompt_no_header:
  assumes "t = globalTemplate \<or> t = southFloridaTemplate"
  shows "\<not> sublist ''SPECIFIC NEIGHBORHOOD CONTEXT:'' (base_prompt t)"
  using assms no_header[OF no_X_global] no_header[OF no_X_southFlorida]
  by (auto simp: globalTemplate_def southFloridaTemplate_def)

lemma sublist_skip: "sublist xs ys \<Longrightarrow> sublist xs (ps @ ys)"
  by (auto simp: sublist_def) (metis append.assoc)

lemma sublist_here: "sublist xs (xs @ ss)"
  by simp

text \<open>The neighborhood block is not empty and carries its header.\<close>

lemma context_has_header:
  "sublist ''SPECIFIC NEIGHBORHOOD CONTEXT:'' (base @ neighborhoodContext t n)"
  unfolding neighborhoodContext_def sublist_def
  by (rule exI[of _ "base @ ''\<newline>\<newline>''"]) simp

lemma context_nonempty: "neighborhoodContext t n \<noteq> []"
  by (simp add: neighborhoodContext_def)

section \<open>The examples, evaluated\<close>

lemma brickell_in_question:
  "sublist (toLowerCase (name brickell)) (toLowerCase brickell_question)"
  by code_simp

lemma wynwood_not_in_question:
  "\<not> sublist (toLowerCase (name wynwood)) (toLowerCase brickell_question)"
  by code_simp

lemma brickell_in_both:
  "sublist (toLowerCase (name brickell)) (toLowerCase both_question)"
  by code_simp

lemma wynwood_in_both:
  "sublist (toLowerCase (name wynwood)) (toLowerCase both_question)"
  by code_simp

lemma nothing_in_hello:
  "\<not> sublist (toLowerCase (name brickell)) (toLowerCase ''hello'')"
  "\<not> sublist (toLowerCase (name wynwood)) (toLowerCase ''hello'')"
  by code_simp+

lemma brickell_in_long_question:
  "sublist (toLowerCase (name brickell)) (toLowerCase long_question)"
  by code_simp

lemma long_question_lengths:
  "length (toLowerCase long_question) = 211" "length (toLowerCase (name brickell)) = 8"
  by code_simp+

lemma question_scores:
  "name_score containment_score brickell_question brickell = 1"
  "name_score containment_score brickell_question wynwood = 0"
  by (simp_all add: name_score_def containment_score_def brickell_in_question
        wynwood_not_in_question)

lemma both_scores:
  "name_score containment_score both_question brickell = 1"
  "name_score containment_score both_question wynwood = 1"
  by (simp_all add: name_score_def containment_score_def brickell_in_both wynwood_in_both)

lemma hello_scores:
  "name_score containment_score ''hello'' brickell = 0"
  "name_score containment_score ''hello'' wynwood = 0"
  by (simp_all add: name_score_def containment_score_def nothing_in_hello)

lemma brickell_neq_wynwood: "brickell \<noteq> wynwood"
  by (simp add: brickell_def wynwood_def)

lemma first_max_question:
  "first_max (name_score containment_score brickell_question) [brickell, wynwood] 0"
  by (simp add: first_max_def question_scores less_Suc_eq)

lemma matched_question:
  "matchedNeighborhood containment_score brickell_question [brickell, wynwood] = Scored brickell 1"
  using matched_first_max[OF first_max_question] by (simp add: question_scores)

lemma matched_hello:
  "matchedNeighborhood containment_score ''hello'' [brickell, wynwood] = Initial"
  by (rule no_record_when_scores_nonpositive) (simp add: hello_scores)

lemma brickell_request_message:
  "property brickell_request ''message'' = Some (JStr brickell_question)"
  by (simp add: brickell_request_def)

lemma hello_request_message: "property hello_request ''message'' = Some (JStr ''hello'')"
  by (simp add: hello_request_def)

lemma brickell_question_nonempty: "brickell_question \<noteq> []"
  by (simp add: brickell_question_def)

lemma example_world_simps:
  "GROQ_API_KEY example_world = Some ''gsk_example''"
  "neighborhoods_json example_world = Some [brickell, wynwood]"
  "fuzzy_match example_world = containment_score"
  "chat_completions_create example_world = example_reply"
  by (simp_all add: example_world_def)

lemma example_sent:
  "POST t example_world (Some brickell_request) =
     (respond (Some (brickell, 1))
        (Completion (Some ''Brickell floods at king tides.'')),
      [create_params (conversation (systemPrompt t (Some (brickell, 1))) brickell_question)])"
  using POST_upstream[OF brickell_request_message brickell_question_nonempty
      example_world_simps(1) _ example_world_simps(2) refl refl, of t]
  by (simp add: example_world_simps matched_question example_reply_def)

lemma hello_sent:
  "POST t example_world (Some hello_request) =
     (respond None (Completion (Some ''Brickell floods at king tides.'')),
      [create_params (conversation (systemPrompt t None) ''hello'')])"
  using POST_upstream[OF hello_request_message _ example_world_simps(1) _
      example_world_simps(2) refl refl, of t]
  by (simp add: example_world_simps matched_hello example_reply_def)

section \<open>Properties of the specification\<close>

subsection \<open>Threshold\<close>

text \<open>C1.  For a request that passes the checks, the handler sends one request upstream whose
  system message is decided by the best score.  The header of the neighborhood block occurs
  in the system prompt if and only if the best score is above 0.7.  When the score is at most
  0.7 the matched neighborhood is none and the system prompt is the base prompt; when it is
  above 0.7 the best is a scored record and the block of that record, which is not empty, is
  appended to the base prompt.\<close>

theorem context_injected_iff_above_threshold:
  assumes "t = globalTemplate \<or> t = southFloridaTemplate"
    and "property body ''message'' = Some (JStr m)" and "m \<noteq> []"
    and "GROQ_API_KEY w = Some k" and "k \<noteq> []"
    and "neighborhoods_json w = Some ns"
    and "b = matchedNeighborhood (fuzzy_match w) m ns"
  shows "\<exists>sp. snd (POST t w (Some body)) = [create_params (conversation sp m)] \<and>
           (sublist ''SPECIFIC NEIGHBORHOOD CONTEXT:'' sp \<longleftrightarrow> 0.7 < score b) \<and>
           (score b \<le> 0.7 \<longrightarrow>
              neighborhood_opt b = None \<and> sp = base_prompt t \<and>
              \<not> sublist ''SPECIFIC NEIGHBORHOOD CONTEXT:'' sp) \<and>
           (0.7 < score b \<longrightarrow>
              (\<exists>n. b = Scored n (score b) \<and> neighborhood_opt b = Some (n, score b) \<and>
                   sp = base_prompt t @ neighborhoodContext t n \<and>
                   sp \<noteq> base_prompt t \<and>
                   sublist (neighborhoodContext t n) sp \<and>
                   sublist ''SPECIFIC NEIGHBORHOOD CONTEXT:'' sp))"
proof -
  let ?sp = "systemPrompt t (neighborhood_opt b)"
  let ?h = "''SPECIFIC NEIGHBORHOOD CONTEXT:''"
  have sent: "snd (POST t w (Some body)) = [create_params (conversation ?sp m)]"
    using POST_upstream[OF assms(2-6) refl refl] assms(7) by simp
  have low: "neighborhood_opt b = None \<and> ?sp = base_prompt t \<and> \<not> sublist ?h ?sp"
    if "score b \<le> 0.7"
  proof -
    from that have none: "neighborhood_opt b = None" by (simp add: neighborhood_opt_None)
    with base_prompt_no_header[OF assms(1)] show ?thesis by simp
  qed
  have high: "\<exists>n. b = Scored n (score b) \<and> neighborhood_opt b = Some (n, score b) \<and>
      ?sp = base_prompt t @ neighborhoodContext t n \<and> ?sp \<noteq> base_prompt t \<and>
      sublist (neighborhoodContext t n) ?sp \<and> sublist ?h ?sp" if "0.7 < score b"
  proof (cases b)
    case Initial
    with that show ?thesis by simp
  next
    case (Scored n s)
    with that have sp: "?sp = base_prompt t @ neighborhoodContext t n" by simp
    show ?thesis
      using Scored that sp context_has_header[of "base_prompt t" t n] context_nonempty[of t n]
      by simp
  qed
  have iff: "sublist ?h ?sp \<longleftrightarrow> 0.7 < score b"
    using low high by (cases "0.7 < score b") (auto simp: not_less)
  from sent iff low high show ?thesis by blast
qed

text \<open>On the example world the question about Brickell is sent with the block of that
  record, header included.\<close>

theorem context_injected_iff_above_threshold_witness:
  "snd (POST globalTemplate example_world (Some brickell_request)) =
     [create_params (conversation
        (base_prompt globalTemplate @ neighborhoodContext globalTemplate brickell)
        brickell_question)] \<and>
   sublist ''SPECIFIC NEIGHBORHOOD CONTEXT:''
     (base_prompt globalTemplate @ neighborhoodContext globalTemplate brickell) \<and>
   \<not> sublist ''SPECIFIC NEIGHBORHOOD CONTEXT:'' (base_prompt globalTemplate)"
proof -
  let ?b = "matchedNeighborhood (fuzzy_match example_world) brickell_question [brickell, wynwood]"
  let ?h = "''SPECIFIC NEIGHBORHOOD CONTEXT:''"
  have b: "?b = Scored brickell 1"
    by (simp add: example_world_simps matched_question)
  from context_injected_iff_above_threshold[OF disjI1[OF refl] brickell_request_message
      brickell_question_nonempty example_world_simps(1) _ example_world_simps(2) refl]
  obtain sp where sent: "snd (POST globalTemplate example_world (Some brickell_request)) =
        [create_params (conversation sp brickell_question)]"
    and iff: "sublist ?h sp \<longleftrightarrow> 0.7 < score ?b"
    and high: "0.7 < score ?b \<longrightarrow> (\<exists>n. ?b = Scored n (score ?b) \<and>
          sp = base_prompt globalTemplate @ neighborhoodContext globalTemplate n)"
    by auto
  from high b have sp: "sp = base_prompt globalTemplate @ neighborhoodContext globalTemplate brickell"
    by simp
  from iff b have "sublist ?h sp" by simp
  with sent sp base_prompt_no_header[of globalTemplate] show ?thesis by simp
qed

subsection \<open>Selection\<close>

text \<open>C2, as the code has it.  The matcher selects at most one record.  When some record scores
  above 0 it is the record at the first maximum of the scores, in dataset order; when none
  does, and so for an empty collection, the result is the initial object: no match, score 0.\<close>

theorem first_maximum_wins:
  "matchedNeighborhood match msg [] = Initial \<and>
   (if \<exists>n\<in>set ns. 0 < name_score match msg n
    then \<exists>i. first_max (name_score match msg) ns i \<and>
           matchedNeighborhood match msg ns = Scored (ns ! i) (name_score match msg (ns ! i))
    else matchedNeighborhood match msg ns = Initial)"
  using fold_reducer[of ns match msg] by (simp add: matchedNeighborhood_def)

text \<open>C2 as stated asks for a selected record on every non-empty collection.  When no name
  scores above 0 against the query, the initial object \<^verbatim>\<open>{ score: 0 }\<close> is never replaced.\<close>

theorem exactly_one_record_counterexample:
  "''hello'' \<noteq> [] \<and> [brickell, wynwood] \<noteq> [] \<and>
   \<not> (\<exists>n s. matchedNeighborhood containment_score ''hello'' [brickell, wynwood] = Scored n s)"
  by (simp add: matched_hello)

text \<open>When two records tie at the maximum the earlier one is kept.\<close>

theorem first_maximum_wins_witness:
  "matchedNeighborhood containment_score both_question [brickell, wynwood] = Scored brickell 1"
proof -
  have "\<exists>n\<in>set [brickell, wynwood]. 0 < name_score containment_score both_question n"
    by (simp add: both_scores)
  with first_maximum_wins[of containment_score both_question "[brickell, wynwood]"]
  obtain i where fm: "first_max (name_score containment_score both_question) [brickell, wynwood] i"
    and r: "matchedNeighborhood containment_score both_question [brickell, wynwood] =
        Scored ([brickell, wynwood] ! i)
          (name_score containment_score both_question ([brickell, wynwood] ! i))"
    by auto
  from fm have "i = 0"
    by (auto simp: first_max_def both_scores less_Suc_eq)
  with r show ?thesis by (simp add: both_scores)
qed

subsection \<open>A name contained in the query\<close>

text \<open>C3.  The handler compares the score of the library with 0.7 as it comes, without
  normalising it.  A query that contains the name of a record, with that record in the
  collection, gets no neighborhood, the base prompt and a null location as soon as the
  library rates the name at 0.7 or less against the query, as a scorer that takes points for
  the unmatched characters of a long query does.\<close>

theorem contained_name_not_matched:
  assumes "match (toLowerCase (name brickell)) (toLowerCase long_question) \<le> 0.7"
  shows "sublist (toLowerCase (name brickell)) (toLowerCase long_question) \<and>
         neighborhood_opt (matchedNeighborhood match long_question [brickell]) = None \<and>
         systemPrompt t (neighborhood_opt (matchedNeighborhood match long_question [brickell]))
           = base_prompt t \<and>
         location (neighborhood_opt (matchedNeighborhood match long_question [brickell])) = JNull"
  using assms single_record_below_threshold[of match brickell long_question]
    brickell_in_long_question by simp

theorem contained_name_not_matched_witness:
  "penalty_score (toLowerCase (name brickell)) (toLowerCase long_question) = - 123 \<and>
   sublist (toLowerCase (name brickell)) (toLowerCase long_question) \<and>
   neighborhood_opt (matchedNeighborhood penalty_score long_question [brickell]) = None \<and>
   location (neighborhood_opt (matchedNeighborhood penalty_score long_question [brickell])) = JNull"
proof -
  have s: "penalty_score (toLowerCase (name brickell)) (toLowerCase long_question) = - 123"
    by (simp add: penalty_score_def brickell_in_long_question long_question_lengths)
  then have "penalty_score (toLowerCase (name brickell)) (toLowerCase long_question) \<le> 0.7"
    by simp
  with contained_name_not_matched[of penalty_score globalTemplate] s show ?thesis by simp
qed

subsection \<open>Prompt composition\<close>

text \<open>C5.  The system prompt composed for a matched record contains the value of each of the
  ten climate parameters, of the vulnerability and of the solutions, and it is the same
  whatever the score of the match: it depends on the template and the record alone.\<close>

theorem prompt_contains_every_field:
  "sublist (flood_risk (climate_parameters n)) (systemPrompt t (Some (n, s))) \<and>
   sublist (storm_surge (climate_parameters n)) (systemPrompt t (Some (n, s))) \<and>
   sublist (heat_index (climate_parameters n)) (systemPrompt t (Some (n, s))) \<and>
   sublist (sea_level_rise (climate_parameters n)) (systemPrompt t (Some (n, s))) \<and>
   sublist (precipitation_trends (climate_parameters n)) (systemPrompt t (Some (n, s))) \<and>
   sublist (wind_risk (climate_parameters n)) (systemPrompt t (Some (n, s))) \<and>
   sublist (coastal_erosion (climate_parameters n)) (systemPrompt t (Some (n, s))) \<and>
   sublist (groundwater_intrusion (climate_parameters n)) (systemPrompt t (Some (n, s))) \<and>
   sublist (infrastructure_resilience (climate_parameters n)) (systemPrompt t (Some (n, s))) \<and>
   sublist (adaptation_cost_estimate (climate_parameters n)) (systemPrompt t (Some (n, s))) \<and>
   sublist (vulnerability n) (systemPrompt t (Some (n, s))) \<and>
   sublist (solutions n) (systemPrompt t (Some (n, s))) \<and>
   systemPrompt t (Some (n, s)) = systemPrompt t (Some (n, s'))"
  unfolding systemPrompt.simps neighborhoodContext_def
  by (intro conjI refl; (rule sublist_here | rule sublist_skip)+)

subsection \<open>Location\<close>

text \<open>C6.  When the upstream call returns non-empty content the response is the
  \<^verbatim>\<open>parsed\<close> envelope with status 200; its \<^verbatim>\<open>location\<close> holds the coordinates of the
  matched record when the best score is above 0.7 and is null otherwise.\<close>

theorem location_of_matched_record:
  assumes "POST t w (Some body) = (out, [p])"
    and "property body ''message'' = Some (JStr m)"
    and "neighborhoods_json w = Some ns"
    and "chat_completions_create w p = Completion (Some c)" and "c \<noteq> []"
    and "b = matchedNeighborhood (fuzzy_match w) m ns"
  shows "\<exists>parsed. out = Response 200 (JObj [(''parsed'', parsed)]) \<and>
           (0.7 < score b \<longrightarrow>
              (\<exists>n. b = Scored n (score b) \<and>
                   property parsed ''location'' =
                     Some (JObj [(''lat'', JNum (lat n)), (''lon'', JNum (lon n))]))) \<and>
           (score b \<le> 0.7 \<longrightarrow> property parsed ''location'' = Some JNull)"
proof -
  from POST_sent[OF assms(1)] assms(2,3,6)
  have out: "out = respond (neighborhood_opt b) (chat_completions_create w p)" by auto
  show ?thesis
  proof (cases b)
    case Initial
    with out assms(4,5) show ?thesis by simp
  next
    case (Scored n s)
    with out assms(4,5) show ?thesis by simp
  qed
qed

theorem location_of_matched_record_witness:
  "\<exists>parsed. fst (POST globalTemplate example_world (Some brickell_request)) =
       Response 200 (JObj [(''parsed'', parsed)]) \<and>
     property parsed ''location'' =
       Some (JObj [(''lat'', JNum (lat brickell)), (''lon'', JNum (lon brickell))])"
proof -
  let ?b = "matchedNeighborhood (fuzzy_match example_world) brickell_question [brickell, wynwood]"
  have b: "?b = Scored brickell 1"
    by (simp add: example_world_simps matched_question)
  have "chat_completions_create example_world
          (create_params (conversation (systemPrompt globalTemplate (Some (brickell, 1)))
             brickell_question)) = Completion (Some ''Brickell floods at king tides.'')"
    by (simp add: example_world_simps example_reply_def)
  from location_of_matched_record[OF example_sent brickell_request_message
      example_world_simps(2) this _ refl]
  show ?thesis using b by (auto simp: example_sent)
qed

subsection \<open>Missing credential\<close>

text \<open>C7.  With \<^verbatim>\<open>GROQ_API_KEY\<close> unset the module-level constructor throws when the route
  is loaded, in both copies, so a request with a non-empty string message does not get the
  response \<^verbatim>\<open>{ error: 'Groq API key not set' }\<close> that the guard inside the handler would
  give; nothing is sent upstream.\<close>

theorem missing_key_fails_at_module_load:
  "chat_route globalTemplate (example_world\<lparr>GROQ_API_KEY := None\<rparr>) (Some brickell_request)
     = (Uncaught, []) \<and>
   chat_route southFloridaTemplate (example_world\<lparr>GROQ_API_KEY := None\<rparr>) (Some brickell_request)
     = (Uncaught, []) \<and>
   fst (chat_route globalTemplate (example_world\<lparr>GROQ_API_KEY := None\<rparr>) (Some brickell_request))
     \<noteq> Response 500 (JObj [(''error'', JStr ''Groq API key not set'')]) \<and>
   POST globalTemplate (example_world\<lparr>GROQ_API_KEY := None\<rparr>) (Some brickell_request)
     = (Response 500 (JObj [(''error'', JStr ''Groq API key not set'')]), [])"
proof -
  have "POST globalTemplate (example_world\<lparr>GROQ_API_KEY := None\<rparr>) (Some brickell_request)
     = (Response 500 (JObj [(''error'', JStr ''Groq API key not set'')]), [])"
    by (rule guard_without_key[OF brickell_request_message brickell_question_nonempty]) simp
  then show ?thesis by (simp add: route_without_key)
qed

subsection \<open>Empty completion\<close>

text \<open>C8.  When the upstream call made by the handler returns, non-empty content is returned
  as \<^verbatim>\<open>parsed.response\<close> with status 200, and empty or absent content gives status 500 with
  an error body that has no \<^verbatim>\<open>parsed\<close> property.\<close>

theorem buffered_response_nonempty:
  assumes "POST t w req = (out, [p])"
    and "chat_completions_create w p = Completion c"
  shows "(c \<noteq> None \<and> c \<noteq> Some [] \<longrightarrow>
            (\<exists>s loc. c = Some s \<and> s \<noteq> [] \<and>
               out = Response 200
                 (JObj [(''parsed'', JObj [(''response'', JStr s), (''location'', loc)])]))) \<and>
         (c = None \<or> c = Some [] \<longrightarrow>
            out = Response 500 (JObj [(''error'', JStr ''Empty response from model'')]))"
proof -
  from POST_sent[OF assms(1)] assms(2) obtain nb where
    out: "out = respond nb (Completion c)" by auto
  show ?thesis
  proof (cases c)
    case None
    with out show ?thesis by (simp add: error_body_def)
  next
    case (Some s)
    with out show ?thesis by (simp add: error_body_def)
  qed
qed

theorem buffered_response_nonempty_witness:
  "\<exists>loc. fst (POST southFloridaTemplate example_world (Some brickell_request)) =
     Response 200
       (JObj [(''parsed'',
          JObj [(''response'', JStr ''Brickell floods at king tides.''), (''location'', loc)])])"
proof -
  have "chat_completions_create example_world
          (create_params (conversation (systemPrompt southFloridaTemplate (Some (brickell, 1)))
             brickell_question)) = Completion (Some ''Brickell floods at king tides.'')"
    by (simp add: example_world_simps example_reply_def)
  from buffered_response_nonempty[OF example_sent this]
  show ?thesis by (simp add: example_sent)
qed

subsection \<open>The two routes\<close>

text \<open>C9, as the code has it.  The two routes differ in the template only.  On every input
  either both give the same response without calling upstream, or both send one request, with
  the same model, parameters and user message and a system prompt composed for the same
  match; when the upstream gives both requests the same result, the responses are equal.\<close>

theorem variants_agree_up_to_template:
  "(snd (POST_global w req) = [] \<and> POST_global w req = POST_southFlorida w req) \<or>
   (\<exists>m nb pG pS.
      pG = create_params (conversation (systemPrompt globalTemplate nb) m) \<and>
      pS = create_params (conversation (systemPrompt southFloridaTemplate nb) m) \<and>
      snd (POST_global w req) = [pG] \<and> snd (POST_southFlorida w req) = [pS] \<and>
      (chat_completions_create w pG = chat_completions_create w pS \<longrightarrow>
         fst (POST_global w req) = fst (POST_southFlorida w req)))"
proof (cases "snd (POST_global w req)")
  case Nil
  then show ?thesis
    using POST_not_sent[of globalTemplate w req southFloridaTemplate]
    by (simp add: POST_global_def POST_southFlorida_def)
next
  case (Cons p ps)
  then have "POST globalTemplate w req = (fst (POST globalTemplate w req), p # ps)"
    by (simp add: POST_global_def prod_eq_iff)
  from POST_sent[OF this] obtain body m ns where
    req: "req = Some body" and msg: "property body ''message'' = Some (JStr m)" "m \<noteq> []"
    and ds: "neighborhoods_json w = Some ns" by auto
  have key: "\<exists>k. GROQ_API_KEY w = Some k \<and> k \<noteq> []"
  proof (rule ccontr)
    assume "\<not> ?thesis"
    then have "GROQ_API_KEY w = None \<or> GROQ_API_KEY w = Some []" by (cases "GROQ_API_KEY w") auto
    with msg have "snd (POST globalTemplate w (Some body)) = []"
      by (cases body) (auto simp: POST_def)
    with Cons req show False by (simp add: POST_global_def)
  qed
  then obtain k where k: "GROQ_API_KEY w = Some k" "k \<noteq> []" by blast
  let ?nb = "neighborhood_opt (matchedNeighborhood (fuzzy_match w) m ns)"
  note G = POST_upstream[OF msg k ds refl refl, of globalTemplate]
  note S = POST_upstream[OF msg k ds refl refl, of southFloridaTemplate]
  show ?thesis
    apply (rule disjI2)
    apply (rule exI[of _ m], rule exI[of _ ?nb])
    using G S req by (simp add: POST_global_def POST_southFlorida_def)
qed

text \<open>C9 as stated has the prompt composition identical.  The system prompts the two routes
  send for the same request differ.\<close>

theorem prompt_templates_counterexample:
  "snd (POST_global example_world (Some hello_request)) \<noteq>
   snd (POST_southFlorida example_world (Some hello_request))"
  by (simp add: POST_global_def POST_southFlorida_def hello_sent create_params_def
      conversation_def globalTemplate_def southFloridaTemplate_def globalPrompt_def
      southFloridaPrompt_def)

theorem variants_agree_up_to_template_witness:
  "fst (POST_global example_world (Some brickell_request)) =
   fst (POST_southFlorida example_world (Some brickell_request))"
proof -
  have sent: "snd (POST_global example_world (Some brickell_request)) \<noteq> []"
    by (simp add: POST_global_def example_sent)
  have same: "chat_completions_create example_world pG = chat_completions_create example_world pS"
    for pG pS by (simp add: example_world_simps example_reply_def)
  from variants_agree_up_to_template[of example_world "Some brickell_request"] sent same
  show ?thesis by blast
qed

subsection \<open>Fields the handler ignores\<close>

text \<open>C10.  Two bodies with the same \<^verbatim>\<open>message\<close> property give the same response and the
  same upstream request, whatever else they hold: \<^verbatim>\<open>sessionId\<close> and \<^verbatim>\<open>history\<close> are not
  read.  (The handler also writes \<^verbatim>\<open>sessionId\<close> to the console, which is outside the
  model.)\<close>

theorem sessionId_history_ignored:
  assumes "map_of props1 ''message'' = map_of props2 ''message''"
  shows "POST t w (Some (JObj props1)) = POST t w (Some (JObj props2))"
  using assms by (simp add: POST_def)

theorem sessionId_history_ignored_witness:
  "brickell_request \<noteq> brickell_request_later \<and>
   POST globalTemplate example_world (Some brickell_request) =
   POST globalTemplate example_world (Some brickell_request_later)"
proof -
  have "POST globalTemplate example_world
          (Some (JObj [(''message'', JStr brickell_question), (''history'', JArr []),
                       (''sessionId'', JStr ''k3j9x'')])) =
        POST globalTemplate example_world
          (Some (JObj [(''message'', JStr brickell_question),
             (''history'', JArr [JObj [(''role'', JStr ''user''), (''content'', JStr ''hello'')],
                                 JObj [(''role'', JStr ''assistant''), (''content'', JStr ''Hi!'')]]),
             (''sessionId'', JStr ''p0q7m'')]))"
    by (rule sessionId_history_ignored) simp
  then show ?thesis by (simp add: brickell_request_def brickell_request_later_def)
qed

end
